theory Spec2Isabelle
  imports Complex_Main
begin

section \<open>Data model of \<^verbatim>\<open>Q-and-A-Chatbot/app.py\<close>\<close>

text \<open>
  The application is one Streamlit script. Streamlit executes the script from top to
  bottom once for every user interaction; \<^verbatim>\<open>st.session_state\<close> survives between
  executions of one browser session. The embedding makes that explicit: one execution of
  the script is a function from the stored session state and the input of that execution
  to the new session state, the list of elements shown, and the way the execution ended.

  The settings dictionary has the three keys \<^verbatim>\<open>model\<close>, \<^verbatim>\<open>temperature\<close> and
  \<^verbatim>\<open>max_tokens\<close>. The temperature is a Python float that the program only stores,
  forwards and hands to a slider, never computes with, so it is a number of type
  \<^typ>\<open>real\<close> here; \<^verbatim>\<open>float(x)\<close> of a float and \<^verbatim>\<open>int(n)\<close> of an int are the
  identity and are not written.
\<close>

record settings =
  model :: string
  temperature :: real
  max_tokens :: int

text \<open>A transcript entry is the dictionary \<^verbatim>\<open>{"role": ..., "content": ...}\<close>.\<close>

record message =
  role :: string
  content :: string

text \<open>
  \<^verbatim>\<open>st.session_state\<close> holds three keys, each of which may be absent in a fresh
  browser session (lines 50 to 61 test \<^verbatim>\<open>"page" not in st.session_state\<close> and so on).
\<close>

record session_state =
  page_slot :: "string option"
  settings_slot :: "settings option"
  messages_slot :: "message list option"

text \<open>After lines 50 to 61 all three keys are present; the pages work on that state.\<close>

record session =
  page :: string
  settings :: settings
  messages :: "message list"

text \<open>A Python exception: its class name and the text \<^verbatim>\<open>str(e)\<close>.\<close>

datatype exn = Exn (exn_class: string) (exn_str: string)

text \<open>
  The call \<^verbatim>\<open>ChatOpenAI(api_key=..., base_url=..., model=..., temperature=...,
  max_tokens=...)\<close> piped after the prompt template describes one chat completion request.
\<close>

record request =
  api_key :: string
  base_url :: string
  req_model :: string
  req_temperature :: real
  req_max_tokens :: int
  chat_messages :: "(string \<times> string) list"

text \<open>
  The buttons of the three pages. The labels in the source carry emoji; the constructor
  names stand for: landing page \<^emph>\<open>Get Started\<close>, \<^emph>\<open>Setup\<close>, \<^emph>\<open>Chat\<close>; setup page
  \<^emph>\<open>Back\<close>, \<^emph>\<open>Save Settings\<close>, \<^emph>\<open>Continue to Chat\<close>; chat sidebar \<^emph>\<open>Clear chat\<close>,
  \<^emph>\<open>Home\<close>, \<^emph>\<open>Setup\<close>.
\<close>

datatype button =
  GetStarted | LandingSetup | LandingChat
  | Back | SaveSettings | ContinueToChat
  | ClearChat | Home | SidebarSetup

text \<open>
  What starts an execution of the script: Streamlit reruns the script for one widget
  event, so at most one button reads \<^verbatim>\<open>True\<close> or the chat input returns a text, and
  both are reset for the next execution.
\<close>

datatype trigger = Click button | Submit string | NoTrigger

text \<open>
  The input of one execution: the trigger, the value each value widget currently holds
  in the browser (\<open>None\<close> when the user has not touched it, so that it returns the
  default computed by the script), and the remote provider as it answers during this
  execution: either the generated text or an exception.
\<close>

record user_input =
  trigger :: trigger
  model_pick :: "string option"
  temperature_pick :: "real option"
  max_tokens_pick :: "int option"
  provider :: "request \<Rightarrow> exn + string"

text \<open>
  The elements an execution shows that the properties below speak about: the background
  every page function sets first, the status boxes and the chat messages. Static markup,
  the spinner and the warning about a missing background image are left out.
\<close>

datatype ui =
  Background string
  | ErrorBox string
  | SuccessBox string
  | ChatMessage string string

text \<open>
  How an execution ends: it runs to the last line, \<^verbatim>\<open>st.rerun()\<close> aborts it and asks
  for a new execution, \<^verbatim>\<open>st.stop()\<close> halts it, or an exception escapes.
\<close>

datatype control = Completed | RerunRequested | Halted | Uncaught exn

section \<open>Constants and helpers\<close>

definition GROQ_BASE_URL :: string where
  "GROQ_BASE_URL = ''https://api.groq.com/openai/v1''"

definition MODEL_OPTIONS :: "string list" where
  "MODEL_OPTIONS =
     [''llama-3.1-8b-instant'',
      ''llama-3.3-70b-versatile'',
      ''groq/compound-mini'',
      ''groq/compound'']"

text \<open>The prompt template of lines 38 to 43, formatted with the question.\<close>

definition prompt :: "string \<Rightarrow> (string \<times> string) list" where
  "prompt question =
     [(''system'', ''You are a helpful assistant. Answer clearly, politely, and accurately.''),
      (''user'', ''Question: '' @ question)]"

text \<open>
  Python's \<^verbatim>\<open>list.index\<close>: the first position of the element, \<open>None\<close> where Python
  raises \<^verbatim>\<open>ValueError\<close>.
\<close>

fun list_index :: "'a list \<Rightarrow> 'a \<Rightarrow> nat option" where
  "list_index [] x = None"
| "list_index (y # ys) x =
     (if y = x then Some 0
      else (case list_index ys x of None \<Rightarrow> None | Some i \<Rightarrow> Some (Suc i)))"

text \<open>Python's \<^verbatim>\<open>needle in hay\<close> on strings.\<close>

fun starts_with :: "string \<Rightarrow> string \<Rightarrow> bool" where
  "starts_with hay [] = True"
| "starts_with [] (c # cs) = False"
| "starts_with (h # hs) (c # cs) = (h = c \<and> starts_with hs cs)"

fun str_contains :: "string \<Rightarrow> string \<Rightarrow> bool" where
  "str_contains needle [] = (needle = [])"
| "str_contains needle (h # hs) = (starts_with (h # hs) needle \<or> str_contains needle hs)"

text \<open>
  The value widgets. \<^verbatim>\<open>st.selectbox(label, options, index)\<close> returns the option the
  user selected, and \<^verbatim>\<open>options[index]\<close> while the user has selected nothing;
  \<^verbatim>\<open>st.slider(label, lo, hi, value, step)\<close> returns the position the user chose, and
  \<^verbatim>\<open>value\<close> before that. Streamlit is an external library: the definitions state
  this contract and nothing else of it.
\<close>

definition selectbox :: "string list \<Rightarrow> nat \<Rightarrow> string option \<Rightarrow> string" where
  "selectbox options index pick = (case pick of None \<Rightarrow> options ! index | Some v \<Rightarrow> v)"

definition slider :: "'a \<Rightarrow> 'a \<Rightarrow> 'a \<Rightarrow> 'a option \<Rightarrow> 'a" where
  "slider lo hi val pick = (case pick of None \<Rightarrow> val | Some v \<Rightarrow> v)"

definition st_button :: "user_input \<Rightarrow> button \<Rightarrow> bool" where
  "st_button inp b = (trigger inp = Click b)"

definition chat_input :: "user_input \<Rightarrow> string option" where
  "chat_input inp = (case trigger inp of Submit t \<Rightarrow> Some t | _ \<Rightarrow> None)"

text \<open>
  The index handed to both model selectors (lines 349 to 351 and 399 to 401):
  \<^verbatim>\<open>MODEL_OPTIONS.index(m) if m in MODEL_OPTIONS else 0\<close>.
\<close>

definition model_index :: "string \<Rightarrow> nat option" where
  "model_index m = (if m \<in> set MODEL_OPTIONS then list_index MODEL_OPTIONS m else Some 0)"

text \<open>
  An input as the browser can send it: a selected model is one of the options shown, and
  a slider position lies between the slider's ends.
\<close>

definition valid_input :: "user_input \<Rightarrow> bool" where
  "valid_input inp =
     ((case model_pick inp of None \<Rightarrow> True | Some m \<Rightarrow> m \<in> set MODEL_OPTIONS) \<and>
      (case temperature_pick inp of None \<Rightarrow> True | Some t \<Rightarrow> 0 \<le> t \<and> t \<le> 1) \<and>
      (case max_tokens_pick inp of None \<Rightarrow> True | Some n \<Rightarrow> 64 \<le> n \<and> n \<le> 2048))"

section \<open>The completion call\<close>

text \<open>
  \<^verbatim>\<open>generate_response\<close> (lines 243 to 255) reads the settings of the session, builds
  the client and the chain and invokes it once. Nothing is caught here: an exception of
  the provider leaves the function as it is.
\<close>

definition build_request :: "string \<Rightarrow> settings \<Rightarrow> string \<Rightarrow> request" where
  "build_request groq_api_key cfg question =
     \<lparr>api_key = groq_api_key,
      base_url = GROQ_BASE_URL,
      req_model = model cfg,
      req_temperature = temperature cfg,
      req_max_tokens = max_tokens cfg,
      chat_messages = prompt question\<rparr>"

definition generate_response ::
  "string \<Rightarrow> (request \<Rightarrow> exn + string) \<Rightarrow> session \<Rightarrow> string \<Rightarrow> exn + string" where
  "generate_response groq_api_key remote s question =
     (let cfg = settings s in remote (build_request groq_api_key cfg question))"

section \<open>Pages\<close>

definition go :: "string \<Rightarrow> session \<Rightarrow> ui list \<Rightarrow> session \<times> ui list \<times> control" where
  "go page_name s out = (s\<lparr>page := page_name\<rparr>, out, RerunRequested)"

definition landing_page :: "session \<Rightarrow> user_input \<Rightarrow> session \<times> ui list \<times> control" where
  "landing_page s inp =
     (let out = [Background ''landing''] in
      if st_button inp GetStarted then go ''setup'' s out
      else if st_button inp LandingSetup then go ''setup'' s out
      else if st_button inp LandingChat then go ''chat'' s out
      else (s, out, Completed))"

definition saved_msg :: string where
  "saved_msg = ''Saved '' @ [CHR 0xE2, CHR 0x9C, CHR 0x85]"

definition setup_page :: "session \<Rightarrow> user_input \<Rightarrow> session \<times> ui list \<times> control" where
  "setup_page s inp =
     (let out = [Background ''setup''] in
      case model_index (model (settings s)) of
        None \<Rightarrow> (s, out, Uncaught (Exn ''ValueError'' ''x not in list''))
      | Some idx \<Rightarrow>
         (let model_w = selectbox MODEL_OPTIONS idx (model_pick inp);
              temperature_w = slider 0 1 (temperature (settings s)) (temperature_pick inp);
              max_tokens_w = slider 64 2048 (max_tokens (settings s)) (max_tokens_pick inp);
              edited = (settings s)\<lparr>model := model_w, temperature := temperature_w,
                                     max_tokens := max_tokens_w\<rparr>
          in
          if st_button inp Back then go ''landing'' s out
          else
            (let (s1, out1) =
                   (if st_button inp SaveSettings
                    then (s\<lparr>settings := edited\<rparr>, out @ [SuccessBox saved_msg])
                    else (s, out))
             in
             if st_button inp ContinueToChat then go ''chat'' (s1\<lparr>settings := edited\<rparr>) out1
             else (s1, out1, Completed))))"

definition retired_hint :: string where
  "retired_hint = ''That model was retired by Groq. Pick a different model from the dropdown.''"

text \<open>The handler of lines 452 to 459: what is shown for a caught exception.\<close>

definition error_shown :: "exn \<Rightarrow> ui" where
  "error_shown e =
     (let err = exn_str e in
      if str_contains ''model_decommissioned'' err \<or> str_contains ''decommissioned'' err
      then ErrorBox retired_hint
      else ErrorBox (''Error: '' @ exn_str e))"

definition show_history :: "message list \<Rightarrow> ui list" where
  "show_history msgs = map (\<lambda>msg. ChatMessage (role msg) (content msg)) msgs"

text \<open>
  Lines 396 to 408 of \<^verbatim>\<open>chat_page\<close>: the three sidebar widgets, each written back
  into the settings at once. \<^verbatim>\<open>MODEL_OPTIONS.index\<close> is the only call that can raise.
\<close>

definition sidebar_controls :: "session \<Rightarrow> user_input \<Rightarrow> exn + session" where
  "sidebar_controls s inp =
     (case model_index (model (settings s)) of
        None \<Rightarrow> Inl (Exn ''ValueError'' ''x not in list'')
      | Some idx \<Rightarrow>
         (let s1 = s\<lparr>settings := (settings s)\<lparr>model :=
                      selectbox MODEL_OPTIONS idx (model_pick inp)\<rparr>\<rparr>;
              s2 = s1\<lparr>settings := (settings s1)\<lparr>temperature :=
                      slider 0 1 (temperature (settings s1)) (temperature_pick inp)\<rparr>\<rparr>;
              s3 = s2\<lparr>settings := (settings s2)\<lparr>max_tokens :=
                      slider 64 2048 (max_tokens (settings s2)) (max_tokens_pick inp)\<rparr>\<rparr>
          in Inr s3))"

definition chat_page ::
  "string \<Rightarrow> session \<Rightarrow> user_input \<Rightarrow> session \<times> ui list \<times> control" where
  "chat_page groq_api_key s inp =
     (let out = [Background ''chat''] in
      case sidebar_controls s inp of
        Inl e \<Rightarrow> (s, out, Uncaught e)
      | Inr s3 \<Rightarrow>
          if st_button inp ClearChat then (s3\<lparr>messages := []\<rparr>, out, RerunRequested)
          else if st_button inp Home then go ''landing'' s3 out
          else if st_button inp SidebarSetup then go ''setup'' s3 out
          else
            (let out1 = out @ show_history (messages s3) in
             case chat_input inp of
               None \<Rightarrow> (s3, out1, Completed)
             | Some user_text \<Rightarrow>
                 if user_text = [] then (s3, out1, Completed)
                 else
                   (let s4 = s3\<lparr>messages := messages s3 @
                                 [\<lparr>role = ''user'', content = user_text\<rparr>]\<rparr>;
                        out2 = out1 @ [ChatMessage ''user'' user_text]
                    in
                    case generate_response groq_api_key (provider inp) s4 user_text of
                      Inr answer \<Rightarrow>
                        (s4\<lparr>messages := messages s4 @
                               [\<lparr>role = ''assistant'', content = answer\<rparr>]\<rparr>,
                         out2 @ [ChatMessage ''assistant'' answer], Completed)
                    | Inl e \<Rightarrow> (s4, out2 @ [error_shown e], Completed))))"

section \<open>The script\<close>

text \<open>
  Line 17: \<^verbatim>\<open>st.secrets.get("GROQ_API_KEY", os.getenv("GROQ_API_KEY"))\<close>.
  \<^verbatim>\<open>st.secrets\<close> reads the secrets file when it is first used. Where no secrets
  file exists, that read raises, and \<^verbatim>\<open>get\<close>, which only turns a missing key into
  its default, lets the exception pass: it leaves line 17, whatever the environment
  variable holds. Where a secrets file exists, the entry is returned if there is one and
  the environment variable otherwise. The store is absent, or present with the entry
  for \<^verbatim>\<open>GROQ_API_KEY\<close> absent or a string.
\<close>

datatype secrets_store = NoSecrets | Secrets "string option"

text \<open>
  The exception of a missing secrets file. Its class has changed between releases of
  Streamlit; nothing below depends on the name.
\<close>

definition secrets_missing :: exn where
  "secrets_missing = Exn ''StreamlitSecretNotFoundError'' ''No secrets found.''"

definition resolve_key :: "secrets_store \<Rightarrow> string option \<Rightarrow> exn + string option" where
  "resolve_key secret envvar =
     (case secret of
        NoSecrets \<Rightarrow> Inl secrets_missing
      | Secrets entry \<Rightarrow> (case entry of Some k \<Rightarrow> Inr (Some k) | None \<Rightarrow> Inr envvar))"


definition key_missing_msg :: string where
  "key_missing_msg =
     ''GROQ_API_KEY not found. Add it in Streamlit Cloud '' @ [CHR 0xE2, CHR 0x86, CHR 0x92] @
     '' Settings '' @ [CHR 0xE2, CHR 0x86, CHR 0x92] @ '' Secrets.''"

definition default_settings :: settings where
  "default_settings = \<lparr>model = ''llama-3.1-8b-instant'', temperature = 0.7, max_tokens = 512\<rparr>"

text \<open>Lines 50 to 61: each absent key receives its default.\<close>

definition init_session :: "session_state \<Rightarrow> session" where
  "init_session st =
     \<lparr>page = (case page_slot st of None \<Rightarrow> ''landing'' | Some p \<Rightarrow> p),
      settings = (case settings_slot st of None \<Rightarrow> default_settings | Some c \<Rightarrow> c),
      messages = (case messages_slot st of None \<Rightarrow> [] | Some ms \<Rightarrow> ms)\<rparr>"

definition store :: "session \<Rightarrow> session_state" where
  "store s = \<lparr>page_slot = Some (page s), settings_slot = Some (settings s),
              messages_slot = Some (messages s)\<rparr>"

definition fresh_state :: session_state where
  "fresh_state = \<lparr>page_slot = None, settings_slot = None, messages_slot = None\<rparr>"

text \<open>
  One execution of the whole file: the credential check of lines 17 to 20, the session
  defaults, and the router of lines 467 to 472. An exception of line 17 ends the
  execution before anything is shown.
\<close>

definition script ::
  "secrets_store \<Rightarrow> string option \<Rightarrow> session_state \<Rightarrow> user_input \<Rightarrow>
   session_state \<times> ui list \<times> control" where
  "script secret envvar st inp =
     (case resolve_key secret envvar of
        Inl e \<Rightarrow> (st, [], Uncaught e)
      | Inr found \<Rightarrow>
         (case found of
            None \<Rightarrow> (st, [ErrorBox key_missing_msg], Halted)
          | Some groq_api_key \<Rightarrow>
              if groq_api_key = [] then (st, [ErrorBox key_missing_msg], Halted)
              else
                (let s = init_session st;
                     (s', out, c) =
                       (if page s = ''landing'' then landing_page s inp
                        else if page s = ''setup'' then setup_page s inp
                        else chat_page groq_api_key s inp)
                 in (store s', out, c))))"

text \<open>
  After \<^verbatim>\<open>st.rerun()\<close> Streamlit executes the script again at once. No button is
  pressed and no text is submitted in that execution, and the value widgets return their
  defaults: after \<^verbatim>\<open>go\<close> the page has changed and its widgets are new, and after
  \<^emph>\<open>Clear chat\<close> the sidebar widgets hold what the aborted execution has just written
  into the settings.
\<close>

definition idle :: "user_input \<Rightarrow> user_input" where
  "idle inp = inp\<lparr>trigger := NoTrigger, model_pick := None, temperature_pick := None,
                  max_tokens_pick := None\<rparr>"

definition interact ::
  "secrets_store \<Rightarrow> string option \<Rightarrow> session_state \<Rightarrow> user_input \<Rightarrow>
   session_state \<times> ui list \<times> control" where
  "interact secret envvar st inp =
     (case script secret envvar st inp of
        (st1, out1, c1) \<Rightarrow>
          if c1 = RerunRequested then script secret envvar st1 (idle inp)
          else (st1, out1, c1))"

fun run_all ::
  "secrets_store \<Rightarrow> string option \<Rightarrow> session_state \<Rightarrow> user_input list \<Rightarrow> session_state" where
  "run_all secret envvar st [] = st"
| "run_all secret envvar st (inp # inps) =
     run_all secret envvar (fst (interact secret envvar st inp)) inps"

text \<open>Reading the session state the way every execution does, defaults included.\<close>

definition current_page :: "session_state \<Rightarrow> string" where
  "current_page st = page (init_session st)"

definition current_settings :: "session_state \<Rightarrow> settings" where
  "current_settings st = settings (init_session st)"

definition transcript :: "session_state \<Rightarrow> message list" where
  "transcript st = messages (init_session st)"

text \<open>The pages an execution has started to draw: each page function sets its background first.\<close>

fun rendered_pages :: "ui list \<Rightarrow> string list" where
  "rendered_pages [] = []"
| "rendered_pages (Background p # us) = p # rendered_pages us"
| "rendered_pages (u # us) = rendered_pages us"

section \<open>The page state machine as the specification words it\<close>

text \<open>
  The transition table of the specification (section 4.1), written from its words and
  not from the script, to be compared with the script: source page, navigation action,
  target page.
\<close>

definition spec_transitions :: "(string \<times> button \<times> string) list" where
  "spec_transitions =
     [(''landing'', GetStarted, ''setup''),
      (''landing'', LandingSetup, ''setup''),
      (''landing'', LandingChat, ''chat''),
      (''setup'', Back, ''landing''),
      (''setup'', ContinueToChat, ''chat''),
      (''chat'', Home, ''landing''),
      (''chat'', SidebarSetup, ''setup'')]"

text \<open>The target of the transition an action triggers on a page, if the table has one.\<close>

fun spec_lookup :: "(string \<times> button \<times> string) list \<Rightarrow> string \<Rightarrow> button \<Rightarrow> string option" where
  "spec_lookup [] p b = None"
| "spec_lookup ((p', b', q) # rows) p b =
     (if p' = p \<and> b' = b then Some q else spec_lookup rows p b)"

definition spec_target :: "string \<Rightarrow> trigger \<Rightarrow> string option" where
  "spec_target p t = (case t of Click b \<Rightarrow> spec_lookup spec_transitions p b | _ \<Rightarrow> None)"

text \<open>
  The page after a sequence of actions: every valid transition moves to its target, an
  action without a transition on the current page leaves the page alone.
\<close>

fun spec_page_after :: "string \<Rightarrow> trigger list \<Rightarrow> string" where
  "spec_page_after p [] = p"
| "spec_page_after p (t # ts) =
     spec_page_after (case spec_target p t of Some q \<Rightarrow> q | None \<Rightarrow> p) ts"

text \<open>A navigation action is a click on any button but \<^emph>\<open>Clear chat\<close>.\<close>

definition navigation_action :: "user_input \<Rightarrow> bool" where
  "navigation_action inp = (case trigger inp of Click b \<Rightarrow> b \<noteq> ClearChat | _ \<Rightarrow> False)"

text \<open>The value widgets left alone: every one returns the default the script computes.\<close>

definition untouched :: "user_input \<Rightarrow> bool" where
  "untouched inp =
     (model_pick inp = None \<and> temperature_pick inp = None \<and> max_tokens_pick inp = None)"


section \<open>Basic facts about the helpers\<close>

lemma list_index_Some:
  "x \<in> set xs \<Longrightarrow> \<exists>i. list_index xs x = Some i \<and> i < length xs \<and> xs ! i = x"
  by (induction xs) auto

lemma model_index_total:
  "\<exists>i. model_index m = Some i \<and> i < length MODEL_OPTIONS \<and>
       MODEL_OPTIONS ! i = (if m \<in> set MODEL_OPTIONS then m else MODEL_OPTIONS ! 0)"
  using list_index_Some[of m MODEL_OPTIONS]
  by (auto simp: model_index_def MODEL_OPTIONS_def)

lemma sidebar_controls_Inr:
  "\<exists>s3. sidebar_controls s inp = Inr s3 \<and> page s3 = page s \<and> messages s3 = messages s"
proof -
  obtain i where "model_index (model (settings s)) = Some i"
    using model_index_total by blast
  then show ?thesis by (simp add: sidebar_controls_def Let_def)
qed

lemma rendered_pages_append [simp]:
  "rendered_pages (xs @ ys) = rendered_pages xs @ rendered_pages ys"
  by (induction xs rule: rendered_pages.induct) auto

lemma rendered_pages_history [simp]: "rendered_pages (show_history ms) = []"
  by (induction ms) (auto simp: show_history_def)

lemma rendered_pages_error [simp]: "rendered_pages [error_shown e] = []"
  by (simp add: error_shown_def Let_def)

section \<open>The router\<close>

lemma landing_page_renders:
  "rendered_pages (fst (snd (landing_page s inp))) = [''landing''] \<and>
   (\<forall>e. snd (snd (landing_page s inp)) \<noteq> Uncaught e)"
  by (simp add: landing_page_def go_def Let_def)

lemma setup_page_renders:
  "rendered_pages (fst (snd (setup_page s inp))) = [''setup''] \<and>
   (\<forall>e. snd (snd (setup_page s inp)) \<noteq> Uncaught e)"
proof -
  obtain i where "model_index (model (settings s)) = Some i"
    using model_index_total by blast
  then show ?thesis by (simp add: setup_page_def go_def Let_def split: prod.splits)
qed

lemma chat_page_renders:
  "rendered_pages (fst (snd (chat_page k s inp))) = [''chat''] \<and>
   (\<forall>e. snd (snd (chat_page k s inp)) \<noteq> Uncaught e)"
proof -
  obtain s3 where "sidebar_controls s inp = Inr s3"
    using sidebar_controls_Inr by blast
  then show ?thesis
    by (simp add: chat_page_def go_def Let_def split: option.splits sum.splits)
qed

text \<open>
  Claim C10. The router is total over arbitrary values of the page field: with the
  credential present, every execution of the script draws exactly one page, the landing
  page when the field reads \<^verbatim>\<open>landing\<close>, the setup page when it reads
  \<^verbatim>\<open>setup\<close>, and the chat page for every other string; and no exception escapes
  the execution, whatever the field holds.
\<close>

theorem router_total:
  assumes "resolve_key secret envvar = Inr (Some k)" and "k \<noteq> []"
  shows "rendered_pages (fst (snd (script secret envvar st inp))) =
           [if current_page st = ''landing'' then ''landing''
            else if current_page st = ''setup'' then ''setup'' else ''chat'']
         \<and> (\<forall>e. snd (snd (script secret envvar st inp)) \<noteq> Uncaught e)"
  using assms landing_page_renders[of "init_session st" inp]
    setup_page_renders[of "init_session st" inp]
    chat_page_renders[of k "init_session st" inp]
  by (simp add: script_def current_page_def Let_def case_prod_beta)

theorem router_total_witness:
  "resolve_key (Secrets (Some ''gsk_demo'')) None = Inr (Some ''gsk_demo'') \<and> ''gsk_demo'' \<noteq> [] \<and>
   rendered_pages (fst (snd (script (Secrets (Some ''gsk_demo'')) None
       \<lparr>page_slot = Some ''archive'', settings_slot = None, messages_slot = None\<rparr>
       \<lparr>trigger = NoTrigger, model_pick = None, temperature_pick = None,
        max_tokens_pick = None, provider = (\<lambda>r. Inr ''ok'')\<rparr>))) = [''chat'']"
  using router_total [of "Secrets (Some ''gsk_demo'')" None "''gsk_demo''"
      "\<lparr>page_slot = Some ''archive'', settings_slot = None, messages_slot = None\<rparr>"
      "\<lparr>trigger = NoTrigger, model_pick = None, temperature_pick = None,
        max_tokens_pick = None, provider = (\<lambda>r. Inr ''ok'')\<rparr>"]
  by (simp add: resolve_key_def current_page_def init_session_def)

section \<open>Executions of the script\<close>

lemma init_session_store [simp]: "init_session (store s) = s"
  by (simp add: init_session_def store_def)

lemma reads_store [simp]:
  "current_page (store s) = page s"
  "current_settings (store s) = settings s"
  "transcript (store s) = messages s"
  by (simp_all add: current_page_def current_settings_def transcript_def)

lemma script_route:
  assumes "resolve_key secret envvar = Inr (Some k)" and "k \<noteq> []"
  shows "script secret envvar st inp =
           (let r = (if current_page st = ''landing'' then landing_page (init_session st) inp
                     else if current_page st = ''setup'' then setup_page (init_session st) inp
                     else chat_page k (init_session st) inp)
            in (store (fst r), fst (snd r), snd (snd r)))"
  using assms by (simp add: script_def current_page_def Let_def case_prod_beta)



text \<open>Unless the check of lines 17 to 20 passes, an execution changes and draws nothing.\<close>

lemma script_blocked:
  assumes "\<not> (\<exists>k. resolve_key secret envvar = Inr (Some k) \<and> k \<noteq> [])"
  shows "fst (script secret envvar st inp) = st"
    and "snd (snd (script secret envvar st inp)) \<noteq> RerunRequested"
    and "rendered_pages (fst (snd (script secret envvar st inp))) = []"
  using assms by (auto simp: script_def split: sum.splits option.splits)



lemma chat_page_clear:
  assumes "trigger inp = Click ClearChat"
  shows "\<exists>s3. sidebar_controls s inp = Inr s3 \<and>
              chat_page k s inp = (s3\<lparr>messages := []\<rparr>, [Background ''chat''], RerunRequested)"
proof -
  obtain s3 where "sidebar_controls s inp = Inr s3"
    using sidebar_controls_Inr by blast
  then show ?thesis using assms by (simp add: chat_page_def st_button_def)
qed

lemma chat_page_idle:
  assumes "trigger inp = NoTrigger"
  shows "\<exists>s3. sidebar_controls s inp = Inr s3 \<and>
              chat_page k s inp =
                (s3, Background ''chat'' # show_history (messages s3), Completed)"
proof -
  obtain s3 where "sidebar_controls s inp = Inr s3"
    using sidebar_controls_Inr by blast
  then show ?thesis
    using assms by (simp add: chat_page_def st_button_def chat_input_def)
qed

lemma sidebar_controls_keeps:
  "sidebar_controls s inp = Inr s3 \<Longrightarrow> page s3 = page s \<and> messages s3 = messages s"
  using sidebar_controls_Inr[of s inp] by auto

lemma trigger_idle [simp]: "trigger (idle inp) = NoTrigger"
  by (simp add: idle_def)

lemma setup_page_quiet:
  assumes "trigger inp \<noteq> Click Back" and "trigger inp \<noteq> Click SaveSettings"
    and "trigger inp \<noteq> Click ContinueToChat"
  shows "setup_page s inp = (s, [Background ''setup''], Completed)"
proof -
  obtain i where "model_index (model (settings s)) = Some i"
    using model_index_total by blast
  then show ?thesis using assms by (simp add: setup_page_def st_button_def)
qed

section \<open>Clearing the chat\<close>

text \<open>
  Claim C6. A click on \<^emph>\<open>Clear chat\<close>, followed by the rerun it asks for, leaves the
  transcript empty whatever it held, and leaves the current page as it was. The button
  exists on the chat page only: on the landing and setup pages the same click changes
  neither the transcript nor the page.
\<close>

theorem clear_chat_empties_transcript:
  assumes "resolve_key secret envvar = Inr (Some k)" and "k \<noteq> []"
    and "trigger inp = Click ClearChat"
  shows "transcript (fst (interact secret envvar st inp)) =
           (if current_page st = ''landing'' \<or> current_page st = ''setup''
            then transcript st else [])
         \<and> current_page (fst (interact secret envvar st inp)) = current_page st"
proof (cases "current_page st = ''landing'' \<or> current_page st = ''setup''")
  case True
  have quiet: "setup_page (init_session st) inp =
                 (init_session st, [Background ''setup''], Completed)"
    using assms(3) setup_page_quiet by simp
  have "script secret envvar st inp =
          (store (init_session st), [Background (current_page st)], Completed)"
    using True assms(3) quiet
    by (auto simp: script_route[OF assms(1,2)] landing_page_def st_button_def)
  then show ?thesis
    using True by (simp add: interact_def transcript_def current_page_def)
next
  case False
  obtain s3 where s3: "sidebar_controls (init_session st) inp = Inr s3"
    and cp: "chat_page k (init_session st) inp =
               (s3\<lparr>messages := []\<rparr>, [Background ''chat''], RerunRequested)"
    using chat_page_clear[OF assms(3)] by blast
  have keep: "page s3 = current_page st"
    using sidebar_controls_keeps[OF s3] by (simp add: current_page_def)
  have first: "script secret envvar st inp =
                 (store (s3\<lparr>messages := []\<rparr>), [Background ''chat''], RerunRequested)"
    using False cp by (simp add: script_route[OF assms(1,2)])
  obtain s5 where s5: "sidebar_controls (s3\<lparr>messages := []\<rparr>) (idle inp) = Inr s5"
    and cp2: "chat_page k (s3\<lparr>messages := []\<rparr>) (idle inp) =
                (s5, Background ''chat'' # show_history (messages s5), Completed)"
    using chat_page_idle[OF trigger_idle] by blast
  have keep2: "page s5 = page s3 \<and> messages s5 = []"
    using sidebar_controls_keeps[OF s5] by simp
  have second: "fst (script secret envvar (store (s3\<lparr>messages := []\<rparr>)) (idle inp)) = store s5"
    using False keep cp2 by (simp add: script_route[OF assms(1,2)])
  have "fst (interact secret envvar st inp) = store s5"
    using first second by (simp add: interact_def)
  then show ?thesis using False keep keep2 by simp
qed

theorem clear_chat_empties_transcript_witness:
  "resolve_key (Secrets None) (Some ''gsk_demo'') = Inr (Some ''gsk_demo'') \<and> ''gsk_demo'' \<noteq> [] \<and>
   trigger \<lparr>trigger = Click ClearChat, model_pick = None, temperature_pick = None,
        max_tokens_pick = None, provider = (\<lambda>r. Inr ''ok'')\<rparr> = Click ClearChat \<and>
   transcript (fst (interact (Secrets None) (Some ''gsk_demo'')
       \<lparr>page_slot = Some ''chat'', settings_slot = None,
        messages_slot = Some [\<lparr>role = ''user'', content = ''hi''\<rparr>,
                              \<lparr>role = ''assistant'', content = ''hello''\<rparr>]\<rparr>
       \<lparr>trigger = Click ClearChat, model_pick = None, temperature_pick = None,
        max_tokens_pick = None, provider = (\<lambda>r. Inr ''ok'')\<rparr>)) = [] \<and>
   current_page (fst (interact (Secrets None) (Some ''gsk_demo'')
       \<lparr>page_slot = Some ''chat'', settings_slot = None,
        messages_slot = Some [\<lparr>role = ''user'', content = ''hi''\<rparr>,
                              \<lparr>role = ''assistant'', content = ''hello''\<rparr>]\<rparr>
       \<lparr>trigger = Click ClearChat, model_pick = None, temperature_pick = None,
        max_tokens_pick = None, provider = (\<lambda>r. Inr ''ok'')\<rparr>)) = ''chat''"
  using clear_chat_empties_transcript [of "Secrets None" "Some ''gsk_demo''" "''gsk_demo''"
      "\<lparr>trigger = Click ClearChat, model_pick = None, temperature_pick = None,
        max_tokens_pick = None, provider = (\<lambda>r. Inr ''ok'')\<rparr>"
      "\<lparr>page_slot = Some ''chat'', settings_slot = None,
        messages_slot = Some [\<lparr>role = ''user'', content = ''hi''\<rparr>,
                              \<lparr>role = ''assistant'', content = ''hello''\<rparr>]\<rparr>"]
  by (simp add: resolve_key_def current_page_def init_session_def)

section \<open>The credential check\<close>





section \<open>The request of the completion call\<close>

text \<open>
  Claim C7. For every question and every settings, \<^verbatim>\<open>generate_response\<close> hands the
  provider exactly one request, the same whatever the provider answers: the fixed system
  instruction followed by the user message that carries the question (the template
  \<^verbatim>\<open>Question: {question}\<close>), addressed to the model of the settings, with the
  temperature and the output bound of the settings, and with the key and the base URL of
  the program.
\<close>

theorem generate_response_request:
  "\<exists>r. (\<forall>remote. generate_response k remote s question = remote r)
       \<and> req_model r = model (settings s)
       \<and> req_temperature r = temperature (settings s)
       \<and> req_max_tokens r = max_tokens (settings s)
       \<and> chat_messages r =
            [(''system'', ''You are a helpful assistant. Answer clearly, politely, and accurately.''),
             (''user'', ''Question: '' @ question)]
       \<and> api_key r = k \<and> base_url r = ''https://api.groq.com/openai/v1''"
  by (rule exI[of _ "build_request k (settings s) question"])
     (simp add: generate_response_def build_request_def prompt_def GROQ_BASE_URL_def Let_def)

section \<open>Submitting a question\<close>

lemma chat_page_submit:
  assumes "trigger inp = Submit q" and "q \<noteq> []" and "sidebar_controls s inp = Inr s3"
  shows "chat_page k s inp =
           (case generate_response k (provider inp) s3 q of
              Inr answer \<Rightarrow>
                (s3\<lparr>messages := messages s @ [\<lparr>role = ''user'', content = q\<rparr>,
                                               \<lparr>role = ''assistant'', content = answer\<rparr>]\<rparr>,
                 Background ''chat'' # show_history (messages s) @
                   [ChatMessage ''user'' q, ChatMessage ''assistant'' answer], Completed)
            | Inl e \<Rightarrow>
                (s3\<lparr>messages := messages s @ [\<lparr>role = ''user'', content = q\<rparr>]\<rparr>,
                 Background ''chat'' # show_history (messages s) @
                   [ChatMessage ''user'' q, error_shown e], Completed))"
  using assms sidebar_controls_keeps[OF assms(3)]
  by (simp add: chat_page_def st_button_def chat_input_def generate_response_def Let_def
           split: sum.splits)

text \<open>
  Claim C4. On the chat page, for every transcript, when the completion call returns an
  answer for the submitted question, the submission appends exactly two messages: the
  user's question and then the assistant's answer; nothing else of the transcript
  changes, and the page stays.
\<close>

theorem submit_success_appends_pair:
  assumes "resolve_key secret envvar = Inr (Some k)" and "k \<noteq> []"
    and "current_page st \<noteq> ''landing''" and "current_page st \<noteq> ''setup''"
    and "trigger inp = Submit q" and "q \<noteq> []"
    and "sidebar_controls (init_session st) inp = Inr s3"
    and "generate_response k (provider inp) s3 q = Inr answer"
  shows "transcript (fst (interact secret envvar st inp)) =
           transcript st @ [\<lparr>role = ''user'', content = q\<rparr>,
                            \<lparr>role = ''assistant'', content = answer\<rparr>]
         \<and> current_page (fst (interact secret envvar st inp)) = current_page st"
proof -
  have "chat_page k (init_session st) inp =
          (s3\<lparr>messages := messages (init_session st) @
               [\<lparr>role = ''user'', content = q\<rparr>, \<lparr>role = ''assistant'', content = answer\<rparr>]\<rparr>,
           Background ''chat'' # show_history (messages (init_session st)) @
             [ChatMessage ''user'' q, ChatMessage ''assistant'' answer], Completed)"
    using chat_page_submit[OF assms(5,6,7), of k] assms(8) by simp
  then have "interact secret envvar st inp =
          (store (s3\<lparr>messages := messages (init_session st) @
               [\<lparr>role = ''user'', content = q\<rparr>, \<lparr>role = ''assistant'', content = answer\<rparr>]\<rparr>),
           Background ''chat'' # show_history (messages (init_session st)) @
             [ChatMessage ''user'' q, ChatMessage ''assistant'' answer], Completed)"
    using assms(3,4) by (simp add: interact_def script_route[OF assms(1,2)])
  then show ?thesis
    using sidebar_controls_keeps[OF assms(7)]
    by (simp add: transcript_def current_page_def)
qed

theorem submit_success_appends_pair_witness:
  "resolve_key (Secrets (Some ''gsk_demo'')) None = Inr (Some ''gsk_demo'') \<and> ''gsk_demo'' \<noteq> [] \<and>
   sidebar_controls (init_session \<lparr>page_slot = Some ''chat'', settings_slot = None,
        messages_slot = None\<rparr>)
      \<lparr>trigger = Submit ''What is HOL?'', model_pick = None, temperature_pick = None,
        max_tokens_pick = None, provider = (\<lambda>r. Inr ''A logic.'')\<rparr> =
     Inr \<lparr>page = ''chat'', settings = default_settings, messages = []\<rparr> \<and>
   generate_response ''gsk_demo'' (\<lambda>r. Inr ''A logic.'')
      \<lparr>page = ''chat'', settings = default_settings, messages = []\<rparr> ''What is HOL?'' =
     Inr ''A logic.'' \<and>
   transcript (fst (interact (Secrets (Some ''gsk_demo'')) None
       \<lparr>page_slot = Some ''chat'', settings_slot = None, messages_slot = None\<rparr>
       \<lparr>trigger = Submit ''What is HOL?'', model_pick = None, temperature_pick = None,
        max_tokens_pick = None, provider = (\<lambda>r. Inr ''A logic.'')\<rparr>)) =
     [\<lparr>role = ''user'', content = ''What is HOL?''\<rparr>,
      \<lparr>role = ''assistant'', content = ''A logic.''\<rparr>]"
proof -
  have sc: "sidebar_controls (init_session \<lparr>page_slot = Some ''chat'', settings_slot = None,
        messages_slot = None\<rparr>)
      \<lparr>trigger = Submit ''What is HOL?'', model_pick = None, temperature_pick = None,
        max_tokens_pick = None, provider = (\<lambda>r. Inr ''A logic.'')\<rparr> =
     Inr \<lparr>page = ''chat'', settings = default_settings, messages = []\<rparr>"
    by (simp add: sidebar_controls_def init_session_def model_index_def MODEL_OPTIONS_def
          default_settings_def selectbox_def slider_def)
  have gr: "generate_response ''gsk_demo'' (\<lambda>r. Inr ''A logic.'')
      \<lparr>page = ''chat'', settings = default_settings, messages = []\<rparr> ''What is HOL?'' =
     Inr ''A logic.''"
    by (simp add: generate_response_def)
  show ?thesis
    using sc gr submit_success_appends_pair [of "Secrets (Some ''gsk_demo'')" None "''gsk_demo''"
      "\<lparr>page_slot = Some ''chat'', settings_slot = None, messages_slot = None\<rparr>"
      "\<lparr>trigger = Submit ''What is HOL?'', model_pick = None, temperature_pick = None,
        max_tokens_pick = None, provider = (\<lambda>r. Inr ''A logic.'')\<rparr>"
      "''What is HOL?''"
      "\<lparr>page = ''chat'', settings = default_settings, messages = []\<rparr>" "''A logic.''"]
    by (simp add: resolve_key_def current_page_def transcript_def init_session_def)
qed

section \<open>Navigation\<close>

lemma landing_page_effect:
  "page (fst (landing_page s inp)) =
     (if trigger inp = Click GetStarted \<or> trigger inp = Click LandingSetup then ''setup''
      else if trigger inp = Click LandingChat then ''chat'' else page s)
   \<and> messages (fst (landing_page s inp)) = messages s
   \<and> settings (fst (landing_page s inp)) = settings s"
  by (simp add: landing_page_def go_def st_button_def)

lemma setup_page_effect:
  "page (fst (setup_page s inp)) =
     (if trigger inp = Click Back then ''landing''
      else if trigger inp = Click ContinueToChat then ''chat'' else page s)
   \<and> messages (fst (setup_page s inp)) = messages s"
proof -
  obtain i where "model_index (model (settings s)) = Some i"
    using model_index_total by blast
  then show ?thesis
    by (simp add: setup_page_def go_def st_button_def Let_def)
qed

lemma chat_page_effect:
  "page (fst (chat_page k s inp)) =
     (if trigger inp = Click Home then ''landing''
      else if trigger inp = Click SidebarSetup then ''setup'' else page s)
   \<and> ((navigation_action inp \<or> trigger inp = NoTrigger) \<longrightarrow>
        messages (fst (chat_page k s inp)) = messages s)"
proof -
  obtain s3 where s3: "sidebar_controls s inp = Inr s3"
    using sidebar_controls_Inr by blast
  show ?thesis
    using s3 sidebar_controls_keeps[OF s3]
    by (auto simp: chat_page_def go_def st_button_def chat_input_def Let_def
          navigation_action_def split: trigger.splits sum.splits)
qed

lemma spec_target_landing:
  "spec_target ''landing'' t =
     (if t = Click GetStarted \<or> t = Click LandingSetup then Some ''setup''
      else if t = Click LandingChat then Some ''chat'' else None)"
  by (cases t) (auto simp: spec_target_def spec_transitions_def)

lemma spec_target_setup:
  "spec_target ''setup'' t =
     (if t = Click Back then Some ''landing''
      else if t = Click ContinueToChat then Some ''chat'' else None)"
  by (cases t) (auto simp: spec_target_def spec_transitions_def)

lemma spec_target_chat:
  "spec_target ''chat'' t =
     (if t = Click Home then Some ''landing''
      else if t = Click SidebarSetup then Some ''setup'' else None)"
  by (cases t) (auto simp: spec_target_def spec_transitions_def)

lemma script_follows_table:
  assumes "resolve_key secret envvar = Inr (Some k)" and "k \<noteq> []"
    and "current_page st \<in> {''landing'', ''setup'', ''chat''}"
  shows "current_page (fst (script secret envvar st inp)) =
           (case spec_target (current_page st) (trigger inp) of
              Some q \<Rightarrow> q | None \<Rightarrow> current_page st)"
  using assms(3) landing_page_effect[of "init_session st" inp]
    setup_page_effect[of "init_session st" inp]
    chat_page_effect[of k "init_session st" inp]
  by (auto simp: script_route[OF assms(1,2)] spec_target_landing spec_target_setup
        spec_target_chat current_page_def Let_def)

lemma script_keeps_transcript:
  assumes "navigation_action inp \<or> trigger inp = NoTrigger"
  shows "transcript (fst (script secret envvar st inp)) = transcript st"
proof (cases "\<exists>k. resolve_key secret envvar = Inr (Some k) \<and> k \<noteq> []")
  case False
  then show ?thesis by (simp add: script_blocked)
next
  case True
  then obtain k where k: "resolve_key secret envvar = Inr (Some k)" "k \<noteq> []"
    by blast
  show ?thesis
    using assms landing_page_effect[of "init_session st" inp]
      setup_page_effect[of "init_session st" inp]
      chat_page_effect[of k "init_session st" inp]
    by (auto simp: script_route[OF k] transcript_def Let_def)
qed

lemma script_idle_keeps_page:
  assumes "trigger inp = NoTrigger"
  shows "current_page (fst (script secret envvar st inp)) = current_page st"
proof (cases "\<exists>k. resolve_key secret envvar = Inr (Some k) \<and> k \<noteq> []")
  case False
  then show ?thesis by (simp add: script_blocked)
next
  case True
  then obtain k where k: "resolve_key secret envvar = Inr (Some k)" "k \<noteq> []"
    by blast
  show ?thesis
    using assms landing_page_effect[of "init_session st" inp]
      setup_page_effect[of "init_session st" inp]
      chat_page_effect[of k "init_session st" inp]
    by (auto simp: script_route[OF k] current_page_def Let_def)
qed

lemma interact_page:
  "current_page (fst (interact secret envvar st inp)) =
   current_page (fst (script secret envvar st inp))"
  using script_idle_keeps_page[OF trigger_idle]
  by (simp add: interact_def split: prod.splits)

lemma interact_keeps_transcript:
  assumes "navigation_action inp"
  shows "transcript (fst (interact secret envvar st inp)) = transcript st"
proof -
  have "transcript (fst (script secret envvar (fst (script secret envvar st inp)) (idle inp))) =
        transcript (fst (script secret envvar st inp))"
    by (rule script_keeps_transcript) simp
  then show ?thesis
    using script_keeps_transcript[of inp secret envvar st] assms
    by (auto simp: interact_def split: prod.splits)
qed

lemma spec_step_in_enum:
  assumes "p \<in> {''landing'', ''setup'', ''chat''}"
  shows "(case spec_target p t of Some q \<Rightarrow> q | None \<Rightarrow> p) \<in> {''landing'', ''setup'', ''chat''}"
  using assms
  by (auto simp: spec_target_landing spec_target_setup spec_target_chat split: if_splits)

lemma run_all_follows_table:
  assumes "resolve_key secret envvar = Inr (Some k)" and "k \<noteq> []"
  shows "current_page st \<in> {''landing'', ''setup'', ''chat''} \<Longrightarrow>
         current_page (run_all secret envvar st inps) =
           spec_page_after (current_page st) (map trigger inps)"
proof (induction inps arbitrary: st)
  case Nil
  then show ?case by simp
next
  case (Cons inp inps)
  let ?st1 = "fst (interact secret envvar st inp)"
  have step: "current_page ?st1 =
      (case spec_target (current_page st) (trigger inp) of Some q \<Rightarrow> q | None \<Rightarrow> current_page st)"
    using script_follows_table[OF assms Cons.prems] by (simp add: interact_page)
  then have "current_page ?st1 \<in> {''landing'', ''setup'', ''chat''}"
    using spec_step_in_enum[OF Cons.prems] by simp
  then have "current_page (run_all secret envvar ?st1 inps) =
             spec_page_after (current_page ?st1) (map trigger inps)"
    by (rule Cons.IH)
  then show ?case using step by simp
qed

lemma run_all_keeps_transcript:
  "list_all navigation_action inps \<Longrightarrow>
   transcript (run_all secret envvar st inps) = transcript st"
  by (induction inps arbitrary: st) (simp_all add: interact_keeps_transcript)

section \<open>Settings written by the pages\<close>

lemma selectbox_resolves:
  assumes "model_index m = Some i"
  shows "selectbox MODEL_OPTIONS i pick =
           (case pick of Some v \<Rightarrow> v
            | None \<Rightarrow> if m \<in> set MODEL_OPTIONS then m else MODEL_OPTIONS ! 0)"
  using assms model_index_total[of m] by (simp add: selectbox_def split: option.splits)

lemma first_option_member: "MODEL_OPTIONS ! 0 \<in> set MODEL_OPTIONS"
  by (simp add: MODEL_OPTIONS_def)

lemma selectbox_member:
  assumes "model_index m = Some i"
    and "case pick of None \<Rightarrow> True | Some v \<Rightarrow> v \<in> set MODEL_OPTIONS"
  shows "selectbox MODEL_OPTIONS i pick \<in> set MODEL_OPTIONS"
  using assms(2) first_option_member
  by (simp add: selectbox_resolves[OF assms(1)] split: option.splits)

lemma sidebar_controls_settings:
  assumes "sidebar_controls s inp = Inr s3"
  shows "settings s3 =
           \<lparr>model = (case model_pick inp of Some v \<Rightarrow> v
                     | None \<Rightarrow> if model (settings s) \<in> set MODEL_OPTIONS
                               then model (settings s) else MODEL_OPTIONS ! 0),
            temperature = (case temperature_pick inp of Some v \<Rightarrow> v
                           | None \<Rightarrow> temperature (settings s)),
            max_tokens = (case max_tokens_pick inp of Some v \<Rightarrow> v
                          | None \<Rightarrow> max_tokens (settings s))\<rparr>"
proof -
  obtain i where i: "model_index (model (settings s)) = Some i"
    using model_index_total by blast
  show ?thesis
    using assms i selectbox_resolves[OF i, of "model_pick inp"]
    by (auto simp: sidebar_controls_def Let_def slider_def split: option.splits)
qed

lemma chat_page_settings:
  assumes "sidebar_controls s inp = Inr s3"
  shows "settings (fst (chat_page k s inp)) = settings s3"
  using assms
  by (auto simp: chat_page_def go_def Let_def split: option.splits sum.splits)

lemma setup_page_settings:
  "settings (fst (setup_page s inp)) =
     (if trigger inp = Click SaveSettings \<or> trigger inp = Click ContinueToChat
      then \<lparr>model = (case model_pick inp of Some v \<Rightarrow> v
                     | None \<Rightarrow> if model (settings s) \<in> set MODEL_OPTIONS
                               then model (settings s) else MODEL_OPTIONS ! 0),
            temperature = (case temperature_pick inp of Some v \<Rightarrow> v
                           | None \<Rightarrow> temperature (settings s)),
            max_tokens = (case max_tokens_pick inp of Some v \<Rightarrow> v
                          | None \<Rightarrow> max_tokens (settings s))\<rparr>
      else settings s)"
proof -
  obtain i where i: "model_index (model (settings s)) = Some i"
    using model_index_total by blast
  show ?thesis
    using i selectbox_resolves[OF i, of "model_pick inp"]
    by (auto simp: setup_page_def go_def st_button_def Let_def slider_def split: option.splits)
qed

text \<open>What one execution does to the settings, page by page.\<close>

lemma script_settings:
  assumes "resolve_key secret envvar = Inr (Some k)" and "k \<noteq> []"
  shows "current_settings (fst (script secret envvar st inp)) =
     (if current_page st = ''landing''
         \<or> (current_page st = ''setup'' \<and> trigger inp \<noteq> Click SaveSettings
             \<and> trigger inp \<noteq> Click ContinueToChat)
      then current_settings st
      else \<lparr>model = (case model_pick inp of Some v \<Rightarrow> v
                     | None \<Rightarrow> if model (current_settings st) \<in> set MODEL_OPTIONS
                               then model (current_settings st) else MODEL_OPTIONS ! 0),
            temperature = (case temperature_pick inp of Some v \<Rightarrow> v
                           | None \<Rightarrow> temperature (current_settings st)),
            max_tokens = (case max_tokens_pick inp of Some v \<Rightarrow> v
                          | None \<Rightarrow> max_tokens (current_settings st))\<rparr>)"
proof -
  obtain s3 where s3: "sidebar_controls (init_session st) inp = Inr s3"
    using sidebar_controls_Inr by blast
  show ?thesis
    unfolding current_settings_def current_page_def
    using landing_page_effect[of "init_session st" inp]
      setup_page_settings[of "init_session st" inp]
      chat_page_settings[OF s3, of k] sidebar_controls_settings[OF s3]
    by (simp add: script_route[OF assms, unfolded current_page_def] Let_def)
qed

section \<open>The transition table\<close>

lemma table_row_realised:
  assumes "resolve_key secret envvar = Inr (Some k)" and "k \<noteq> []"
    and row: "(p, b, q) \<in> set spec_transitions"
    and "current_page st = p" and t: "trigger inp = Click b"
  shows "current_page (fst (interact secret envvar st inp)) = q"
proof -
  have enum: "p \<in> {''landing'', ''setup'', ''chat''}"
    using row by (auto simp: spec_transitions_def)
  have "spec_target p (Click b) = Some q"
    using row by (auto simp: spec_transitions_def spec_target_def)
  then show ?thesis
    using script_follows_table[OF assms(1,2), of st inp] enum t assms(4)
    by (simp add: interact_page)
qed

text \<open>
  Claim C5. The script implements the transition table of the specification, and the
  table is deterministic: no page has two targets for one action, and every row of the
  table is a step of the script. For every sequence of interactions that starts on one of
  the three pages, the page afterwards is the one the table gives, which is the target of
  the last valid transition applied (an action without a transition on the current page
  leaves the page alone). A sequence of navigation actions leaves the transcript as it
  was, and \<^emph>\<open>Continue to Chat\<close> stores the values of the setup widgets before it
  leaves the setup page.
\<close>

theorem navigation_follows_transition_table:
  assumes "resolve_key secret envvar = Inr (Some k)" and "k \<noteq> []"
    and "current_page st \<in> {''landing'', ''setup'', ''chat''}"
  shows "current_page (run_all secret envvar st inps) =
           spec_page_after (current_page st) (map trigger inps)
         \<and> (list_all navigation_action inps \<longrightarrow>
              transcript (run_all secret envvar st inps) = transcript st)
         \<and> distinct (map (\<lambda>(p, b, q). (p, b)) spec_transitions)
         \<and> (\<forall>(p, b, q) \<in> set spec_transitions. \<forall>st' inp.
                current_page st' = p \<and> trigger inp = Click b \<longrightarrow>
                current_page (fst (interact secret envvar st' inp)) = q)
         \<and> (\<forall>st' inp m t n.
                current_page st' = ''setup'' \<and> trigger inp = Click ContinueToChat \<and>
                model_pick inp = Some m \<and> temperature_pick inp = Some t \<and>
                max_tokens_pick inp = Some n \<longrightarrow>
                current_settings (fst (script secret envvar st' inp)) =
                  \<lparr>model = m, temperature = t, max_tokens = n\<rparr>)"
proof -
  have persist: "\<forall>st' inp m t n.
                current_page st' = ''setup'' \<and> trigger inp = Click ContinueToChat \<and>
                model_pick inp = Some m \<and> temperature_pick inp = Some t \<and>
                max_tokens_pick inp = Some n \<longrightarrow>
                current_settings (fst (script secret envvar st' inp)) =
                  \<lparr>model = m, temperature = t, max_tokens = n\<rparr>"
    by (simp add: script_settings[OF assms(1,2)])
  have rows: "\<forall>(p, b, q) \<in> set spec_transitions. \<forall>st' inp.
                current_page st' = p \<and> trigger inp = Click b \<longrightarrow>
                current_page (fst (interact secret envvar st' inp)) = q"
    using table_row_realised[OF assms(1,2)] by blast
  have det: "distinct (map (\<lambda>(p, b, q). (p, b)) spec_transitions)"
    by (simp add: spec_transitions_def)
  show ?thesis
    using run_all_follows_table[OF assms] run_all_keeps_transcript rows det persist
    by (intro conjI) blast+
qed

theorem navigation_follows_transition_table_witness:
  "resolve_key (Secrets (Some ''gsk_demo'')) None = Inr (Some ''gsk_demo'') \<and> ''gsk_demo'' \<noteq> [] \<and>
   current_page fresh_state \<in> {''landing'', ''setup'', ''chat''} \<and>
   list_all navigation_action
     [\<lparr>trigger = Click GetStarted, model_pick = None, temperature_pick = None,
       max_tokens_pick = None, provider = (\<lambda>r. Inr ''ok'')\<rparr>,
      \<lparr>trigger = Click Home, model_pick = None, temperature_pick = None,
       max_tokens_pick = None, provider = (\<lambda>r. Inr ''ok'')\<rparr>,
      \<lparr>trigger = Click ContinueToChat, model_pick = None, temperature_pick = None,
       max_tokens_pick = None, provider = (\<lambda>r. Inr ''ok'')\<rparr>] \<and>
   current_page (run_all (Secrets (Some ''gsk_demo'')) None fresh_state
     [\<lparr>trigger = Click GetStarted, model_pick = None, temperature_pick = None,
       max_tokens_pick = None, provider = (\<lambda>r. Inr ''ok'')\<rparr>,
      \<lparr>trigger = Click Home, model_pick = None, temperature_pick = None,
       max_tokens_pick = None, provider = (\<lambda>r. Inr ''ok'')\<rparr>,
      \<lparr>trigger = Click ContinueToChat, model_pick = None, temperature_pick = None,
       max_tokens_pick = None, provider = (\<lambda>r. Inr ''ok'')\<rparr>]) = ''chat'' \<and>
   transcript (run_all (Secrets (Some ''gsk_demo'')) None fresh_state
     [\<lparr>trigger = Click GetStarted, model_pick = None, temperature_pick = None,
       max_tokens_pick = None, provider = (\<lambda>r. Inr ''ok'')\<rparr>,
      \<lparr>trigger = Click Home, model_pick = None, temperature_pick = None,
       max_tokens_pick = None, provider = (\<lambda>r. Inr ''ok'')\<rparr>,
      \<lparr>trigger = Click ContinueToChat, model_pick = None, temperature_pick = None,
       max_tokens_pick = None, provider = (\<lambda>r. Inr ''ok'')\<rparr>]) = []"
proof -
  have page0: "current_page fresh_state = ''landing''"
    by (simp add: current_page_def init_session_def fresh_state_def)
  have tr0: "transcript fresh_state = []"
    by (simp add: transcript_def init_session_def fresh_state_def)
  have t1: "spec_target ''landing'' (Click GetStarted) = Some ''setup''"
    by (simp add: spec_target_def spec_transitions_def)
  have t2: "spec_target ''setup'' (Click Home) = None"
    by (simp add: spec_target_def spec_transitions_def)
  have t3: "spec_target ''setup'' (Click ContinueToChat) = Some ''chat''"
    by (simp add: spec_target_def spec_transitions_def)
  have key: "resolve_key (Secrets (Some ''gsk_demo'')) None = Inr (Some ''gsk_demo'')"
    by (simp add: resolve_key_def)
  have enum: "current_page fresh_state \<in> {''landing'', ''setup'', ''chat''}"
    by (simp add: page0)
  have nav: "list_all navigation_action
     [\<lparr>trigger = Click GetStarted, model_pick = None, temperature_pick = None,
       max_tokens_pick = None, provider = (\<lambda>r. Inr ''ok'')\<rparr>,
      \<lparr>trigger = Click Home, model_pick = None, temperature_pick = None,
       max_tokens_pick = None, provider = (\<lambda>r. Inr ''ok'')\<rparr>,
      \<lparr>trigger = Click ContinueToChat, model_pick = None, temperature_pick = None,
       max_tokens_pick = None, provider = (\<lambda>r. Inr ''ok'')\<rparr>]"
    by (simp add: navigation_action_def)
  note inst = navigation_follows_transition_table [of "Secrets (Some ''gsk_demo'')" None "''gsk_demo''"
      fresh_state
      "[\<lparr>trigger = Click GetStarted, model_pick = None, temperature_pick = None,
       max_tokens_pick = None, provider = (\<lambda>r. Inr ''ok'')\<rparr>,
      \<lparr>trigger = Click Home, model_pick = None, temperature_pick = None,
       max_tokens_pick = None, provider = (\<lambda>r. Inr ''ok'')\<rparr>,
      \<lparr>trigger = Click ContinueToChat, model_pick = None, temperature_pick = None,
       max_tokens_pick = None, provider = (\<lambda>r. Inr ''ok'')\<rparr>]"]
  have pg: "current_page (run_all (Secrets (Some ''gsk_demo'')) None fresh_state
     [\<lparr>trigger = Click GetStarted, model_pick = None, temperature_pick = None,
       max_tokens_pick = None, provider = (\<lambda>r. Inr ''ok'')\<rparr>,
      \<lparr>trigger = Click Home, model_pick = None, temperature_pick = None,
       max_tokens_pick = None, provider = (\<lambda>r. Inr ''ok'')\<rparr>,
      \<lparr>trigger = Click ContinueToChat, model_pick = None, temperature_pick = None,
       max_tokens_pick = None, provider = (\<lambda>r. Inr ''ok'')\<rparr>]) = ''chat''"
    using inst [THEN conjunct1] key enum by (simp add: page0 t1 t2 t3)
  have tr: "transcript (run_all (Secrets (Some ''gsk_demo'')) None fresh_state
     [\<lparr>trigger = Click GetStarted, model_pick = None, temperature_pick = None,
       max_tokens_pick = None, provider = (\<lambda>r. Inr ''ok'')\<rparr>,
      \<lparr>trigger = Click Home, model_pick = None, temperature_pick = None,
       max_tokens_pick = None, provider = (\<lambda>r. Inr ''ok'')\<rparr>,
      \<lparr>trigger = Click ContinueToChat, model_pick = None, temperature_pick = None,
       max_tokens_pick = None, provider = (\<lambda>r. Inr ''ok'')\<rparr>]) = []"
    using inst [THEN conjunct2, THEN conjunct1] key enum nav by (simp add: tr0)
  show ?thesis
    using key enum nav pg tr by simp
qed

section \<open>The model allow-list\<close>






lemma sidebar_controls_provider [simp]:
  "sidebar_controls s (inp\<lparr>provider := f\<rparr>) = sidebar_controls s inp"
  by (simp add: sidebar_controls_def split: option.splits)


lemma landing_page_provider [simp]:
  "landing_page s (inp\<lparr>provider := f\<rparr>) = landing_page s inp"
  by (simp add: landing_page_def st_button_def Let_def)

lemma setup_page_provider [simp]:
  "setup_page s (inp\<lparr>provider := f\<rparr>) = setup_page s inp"
  by (simp add: setup_page_def st_button_def Let_def split: option.splits)










section \<open>Saving the settings\<close>

lemma script_untouched:
  assumes "untouched inp" and "model (current_settings st) \<in> set MODEL_OPTIONS"
  shows "current_settings (fst (script secret envvar st inp)) = current_settings st"
proof (cases "\<exists>k. resolve_key secret envvar = Inr (Some k) \<and> k \<noteq> []")
  case False
  then show ?thesis by (simp add: script_blocked)
next
  case True
  then obtain k where k: "resolve_key secret envvar = Inr (Some k)" "k \<noteq> []"
    by blast
  show ?thesis
    using assms by (simp add: script_settings[OF k] untouched_def)
qed

lemma untouched_idle [simp]: "untouched (idle inp)"
  by (simp add: untouched_def idle_def)

lemma interact_settings:
  assumes "model (current_settings (fst (script secret envvar st inp))) \<in> set MODEL_OPTIONS"
  shows "current_settings (fst (interact secret envvar st inp)) =
         current_settings (fst (script secret envvar st inp))"
proof (cases "script secret envvar st inp")
  case (fields st1 out1 c1)
  have "current_settings (fst (script secret envvar st1 (idle inp))) = current_settings st1"
    using script_untouched[OF untouched_idle, of st1 secret envvar inp] assms fields by simp
  then show ?thesis using fields by (simp add: interact_def)
qed

lemma interact_untouched:
  assumes "untouched inp" and "model (current_settings st) \<in> set MODEL_OPTIONS"
  shows "current_settings (fst (interact secret envvar st inp)) = current_settings st"
  using interact_settings[of secret envvar st inp] script_untouched[OF assms]
    assms(2) by simp

lemma run_all_untouched:
  "list_all untouched inps \<Longrightarrow> model (current_settings st) \<in> set MODEL_OPTIONS \<Longrightarrow>
   current_settings (run_all secret envvar st inps) = current_settings st"
  by (induction inps arbitrary: st) (simp_all add: interact_untouched)

text \<open>
  Claim C9. On the setup page, \<^emph>\<open>Save Settings\<close> with a model of the allow-list, a
  temperature in \<open>[0, 1]\<close> and a token bound in \<open>[64, 2048]\<close> in the widgets stores
  exactly those three values, and every later read returns them: they stay the settings
  through any further interactions that leave the widgets alone, on whatever page.
\<close>

theorem save_settings_round_trip:
  assumes "resolve_key secret envvar = Inr (Some k)" and "k \<noteq> []"
    and "current_page st = ''setup''" and "trigger inp = Click SaveSettings"
    and "valid_input inp" and "model_pick inp = Some m"
    and "temperature_pick inp = Some t" and "max_tokens_pick inp = Some n"
    and "list_all untouched later"
  shows "current_settings (fst (interact secret envvar st inp)) =
           \<lparr>model = m, temperature = t, max_tokens = n\<rparr>
         \<and> current_settings (run_all secret envvar (fst (interact secret envvar st inp)) later) =
           \<lparr>model = m, temperature = t, max_tokens = n\<rparr>"
proof -
  have m: "m \<in> set MODEL_OPTIONS"
    using assms(5,6) by (simp add: valid_input_def)
  have one: "current_settings (fst (script secret envvar st inp)) =
               \<lparr>model = m, temperature = t, max_tokens = n\<rparr>"
    using assms(3,4,6,7,8) by (simp add: script_settings[OF assms(1,2)])
  then have two: "current_settings (fst (interact secret envvar st inp)) =
               \<lparr>model = m, temperature = t, max_tokens = n\<rparr>"
    using m interact_settings[of secret envvar st inp] by simp
  then have "current_settings (run_all secret envvar (fst (interact secret envvar st inp)) later) =
               \<lparr>model = m, temperature = t, max_tokens = n\<rparr>"
    using run_all_untouched[OF assms(9), of "fst (interact secret envvar st inp)"] m by simp
  then show ?thesis using two by simp
qed

theorem save_settings_round_trip_witness:
  "resolve_key (Secrets (Some ''gsk_demo'')) None = Inr (Some ''gsk_demo'') \<and> ''gsk_demo'' \<noteq> [] \<and>
   current_page \<lparr>page_slot = Some ''setup'', settings_slot = None, messages_slot = None\<rparr> = ''setup'' \<and>
   valid_input \<lparr>trigger = Click SaveSettings, model_pick = Some ''groq/compound'',
       temperature_pick = Some 0.35, max_tokens_pick = Some 1024,
       provider = (\<lambda>r. Inr ''ok'')\<rparr> \<and>
   list_all untouched
     [\<lparr>trigger = Click ContinueToChat, model_pick = None, temperature_pick = None,
       max_tokens_pick = None, provider = (\<lambda>r. Inr ''ok'')\<rparr>,
      \<lparr>trigger = Submit ''hi'', model_pick = None, temperature_pick = None,
       max_tokens_pick = None, provider = (\<lambda>r. Inr ''ok'')\<rparr>] \<and>
   current_settings (fst (interact (Secrets (Some ''gsk_demo'')) None
      \<lparr>page_slot = Some ''setup'', settings_slot = None, messages_slot = None\<rparr>
      \<lparr>trigger = Click SaveSettings, model_pick = Some ''groq/compound'',
       temperature_pick = Some 0.35, max_tokens_pick = Some 1024,
       provider = (\<lambda>r. Inr ''ok'')\<rparr>)) =
     \<lparr>model = ''groq/compound'', temperature = 0.35, max_tokens = 1024\<rparr> \<and>
   current_settings (run_all (Secrets (Some ''gsk_demo'')) None
      (fst (interact (Secrets (Some ''gsk_demo'')) None
        \<lparr>page_slot = Some ''setup'', settings_slot = None, messages_slot = None\<rparr>
        \<lparr>trigger = Click SaveSettings, model_pick = Some ''groq/compound'',
       temperature_pick = Some 0.35, max_tokens_pick = Some 1024,
       provider = (\<lambda>r. Inr ''ok'')\<rparr>))
     [\<lparr>trigger = Click ContinueToChat, model_pick = None, temperature_pick = None,
       max_tokens_pick = None, provider = (\<lambda>r. Inr ''ok'')\<rparr>,
      \<lparr>trigger = Submit ''hi'', model_pick = None, temperature_pick = None,
       max_tokens_pick = None, provider = (\<lambda>r. Inr ''ok'')\<rparr>]) =
     \<lparr>model = ''groq/compound'', temperature = 0.35, max_tokens = 1024\<rparr>"
proof -
  have key: "resolve_key (Secrets (Some ''gsk_demo'')) None = Inr (Some ''gsk_demo'')"
    by (simp add: resolve_key_def)
  have ne: "''gsk_demo'' \<noteq> []" by simp
  have pg: "current_page \<lparr>page_slot = Some ''setup'', settings_slot = None, messages_slot = None\<rparr> = ''setup''"
    by (simp add: current_page_def init_session_def)
  have tr: "trigger \<lparr>trigger = Click SaveSettings, model_pick = Some ''groq/compound'',
       temperature_pick = Some 0.35, max_tokens_pick = Some 1024,
       provider = (\<lambda>r. Inr ''ok'')\<rparr> = Click SaveSettings" by simp
  have v: "valid_input \<lparr>trigger = Click SaveSettings, model_pick = Some ''groq/compound'',
       temperature_pick = Some 0.35, max_tokens_pick = Some 1024,
       provider = (\<lambda>r. Inr ''ok'')\<rparr>"
    by (simp add: valid_input_def MODEL_OPTIONS_def)
  have p1: "model_pick \<lparr>trigger = Click SaveSettings, model_pick = Some ''groq/compound'',
       temperature_pick = Some 0.35, max_tokens_pick = Some 1024,
       provider = (\<lambda>r. Inr ''ok'')\<rparr> = Some ''groq/compound''" by simp
  have p2: "temperature_pick \<lparr>trigger = Click SaveSettings, model_pick = Some ''groq/compound'',
       temperature_pick = Some 0.35, max_tokens_pick = Some 1024,
       provider = (\<lambda>r. Inr ''ok'')\<rparr> = Some 0.35" by simp
  have p3: "max_tokens_pick \<lparr>trigger = Click SaveSettings, model_pick = Some ''groq/compound'',
       temperature_pick = Some 0.35, max_tokens_pick = Some 1024,
       provider = (\<lambda>r. Inr ''ok'')\<rparr> = Some 1024" by simp
  have u: "list_all untouched
     [\<lparr>trigger = Click ContinueToChat, model_pick = None, temperature_pick = None,
       max_tokens_pick = None, provider = (\<lambda>r. Inr ''ok'')\<rparr>,
      \<lparr>trigger = Submit ''hi'', model_pick = None, temperature_pick = None,
       max_tokens_pick = None, provider = (\<lambda>r. Inr ''ok'')\<rparr>]"
    by (simp add: untouched_def)
  show ?thesis
    using key ne pg v u save_settings_round_trip [OF key ne pg tr v p1 p2 p3 u] by blast
qed

section \<open>Failures of the completion call\<close>

text \<open>\<^verbatim>\<open>str_contains\<close> is the substring test: the needle occurs somewhere in the text.\<close>

lemma starts_with_iff: "starts_with h n \<longleftrightarrow> (\<exists>s. h = n @ s)"
  by (induction h n rule: starts_with.induct) auto

lemma str_contains_iff: "str_contains n h \<longleftrightarrow> (\<exists>p s. h = p @ n @ s)"
proof (induction h)
  case Nil
  then show ?case by auto
next
  case (Cons c h)
  show ?case
  proof
    assume "str_contains n (c # h)"
    then consider "starts_with (c # h) n" | "str_contains n h" by auto
    then show "\<exists>p s. c # h = p @ n @ s"
    proof cases
      case 1
      then obtain s where "c # h = n @ s" by (auto simp: starts_with_iff)
      then have "c # h = [] @ n @ s" by simp
      then show ?thesis by blast
    next
      case 2
      then obtain p s where "h = p @ n @ s" using Cons.IH by auto
      then have "c # h = (c # p) @ n @ s" by simp
      then show ?thesis by blast
    qed
  next
    assume "\<exists>p s. c # h = p @ n @ s"
    then obtain p s where eq: "c # h = p @ n @ s" by auto
    show "str_contains n (c # h)"
    proof (cases p)
      case Nil
      then have "starts_with (c # h) n" using eq by (auto simp: starts_with_iff)
      then show ?thesis by simp
    next
      case (Cons a p')
      then have "h = p' @ n @ s" using eq by simp
      then have "str_contains n h" using Cons.IH by blast
      then show ?thesis by simp
    qed
  qed
qed

lemma longer_needle_redundant:
  assumes "str_contains ''model_decommissioned'' err"
  shows "str_contains ''decommissioned'' err"
proof -
  obtain p s where "err = p @ ''model_decommissioned'' @ s"
    using assms by (auto simp: str_contains_iff)
  then have "err = (p @ ''model_'') @ ''decommissioned'' @ s" by simp
  then show ?thesis unfolding str_contains_iff by blast
qed

lemma error_shown_eq:
  "error_shown e =
     ErrorBox (if str_contains ''decommissioned'' (exn_str e) then retired_hint
               else ''Error: '' @ exn_str e)"
  using longer_needle_redundant[of "exn_str e"]
  by (auto simp: error_shown_def Let_def)

lemma error_shown_visible: "\<exists>msg. error_shown e = ErrorBox msg \<and> msg \<noteq> []"
  by (simp add: error_shown_eq retired_hint_def)

lemma interact_submit_failure:
  assumes "resolve_key secret envvar = Inr (Some k)" and "k \<noteq> []"
    and "current_page st \<noteq> ''landing''" and "current_page st \<noteq> ''setup''"
    and "trigger inp = Submit q" and "q \<noteq> []"
    and "sidebar_controls (init_session st) inp = Inr s3"
    and "generate_response k (provider inp) s3 q = Inl e"
  shows "interact secret envvar st inp =
          (store (s3\<lparr>messages := transcript st @ [\<lparr>role = ''user'', content = q\<rparr>]\<rparr>),
           Background ''chat'' # show_history (transcript st) @
             [ChatMessage ''user'' q, error_shown e], Completed)"
proof -
  have "chat_page k (init_session st) inp =
          (s3\<lparr>messages := messages (init_session st) @ [\<lparr>role = ''user'', content = q\<rparr>]\<rparr>,
           Background ''chat'' # show_history (messages (init_session st)) @
             [ChatMessage ''user'' q, error_shown e], Completed)"
    using chat_page_submit[OF assms(5,6,7), of k] assms(8) by simp
  then show ?thesis
    using assms(3,4) by (simp add: interact_def script_route[OF assms(1,2)] transcript_def)
qed

text \<open>
  Claim C3, as the script has it. On the chat page, for every transcript and every
  non-empty question, when the completion call fails the submission appends exactly one
  message, the user's question, and no assistant message; the last element shown is an
  error box with a non-empty text (the retired-model hint when the text of the exception
  contains \<^verbatim>\<open>decommissioned\<close>). The transcript grows by one, so its length
  afterwards is odd exactly when it was even before, as it is in a session without an
  earlier failure; it is not odd for every transcript.
\<close>

theorem submit_failure_keeps_user_message:
  assumes "resolve_key secret envvar = Inr (Some k)" and "k \<noteq> []"
    and "current_page st \<noteq> ''landing''" and "current_page st \<noteq> ''setup''"
    and "trigger inp = Submit q" and "q \<noteq> []"
    and "sidebar_controls (init_session st) inp = Inr s3"
    and "generate_response k (provider inp) s3 q = Inl e"
  shows "transcript (fst (interact secret envvar st inp)) =
           transcript st @ [\<lparr>role = ''user'', content = q\<rparr>]
         \<and> last (fst (snd (interact secret envvar st inp))) = error_shown e
         \<and> (\<exists>msg. error_shown e = ErrorBox msg \<and> msg \<noteq> [])
         \<and> (str_contains ''decommissioned'' (exn_str e) \<longrightarrow>
              error_shown e = ErrorBox retired_hint)
         \<and> (odd (length (transcript (fst (interact secret envvar st inp)))) \<longleftrightarrow>
              even (length (transcript st)))"
  using error_shown_visible[of e] error_shown_eq[of e]
  by (simp add: interact_submit_failure[OF assms])

theorem submit_failure_keeps_user_message_witness:
  "resolve_key (Secrets (Some ''gsk_demo'')) None = Inr (Some ''gsk_demo'') \<and> ''gsk_demo'' \<noteq> [] \<and>
   sidebar_controls (init_session \<lparr>page_slot = Some ''chat'', settings_slot = None, messages_slot = None\<rparr>)
      \<lparr>trigger = Submit ''first'', model_pick = None, temperature_pick = None,
       max_tokens_pick = None, provider = (\<lambda>r. Inl (Exn ''NotFoundError'' ''Error code: 404 - model_decommissioned''))\<rparr> = Inr \<lparr>page = ''chat'', settings = default_settings, messages = []\<rparr> \<and>
   generate_response ''gsk_demo'' (\<lambda>r. Inl (Exn ''NotFoundError'' ''Error code: 404 - model_decommissioned''))
      \<lparr>page = ''chat'', settings = default_settings, messages = []\<rparr> ''first'' = Inl (Exn ''NotFoundError'' ''Error code: 404 - model_decommissioned'') \<and>
   transcript (fst (interact (Secrets (Some ''gsk_demo'')) None \<lparr>page_slot = Some ''chat'', settings_slot = None, messages_slot = None\<rparr>
      \<lparr>trigger = Submit ''first'', model_pick = None, temperature_pick = None,
       max_tokens_pick = None, provider = (\<lambda>r. Inl (Exn ''NotFoundError'' ''Error code: 404 - model_decommissioned''))\<rparr>)) = [\<lparr>role = ''user'', content = ''first''\<rparr>] \<and>
   last (fst (snd (interact (Secrets (Some ''gsk_demo'')) None \<lparr>page_slot = Some ''chat'', settings_slot = None, messages_slot = None\<rparr>
      \<lparr>trigger = Submit ''first'', model_pick = None, temperature_pick = None,
       max_tokens_pick = None, provider = (\<lambda>r. Inl (Exn ''NotFoundError'' ''Error code: 404 - model_decommissioned''))\<rparr>))) = ErrorBox retired_hint"
proof -
  have key: "resolve_key (Secrets (Some ''gsk_demo'')) None = Inr (Some ''gsk_demo'')"
    by (simp add: resolve_key_def)
  have ne: "''gsk_demo'' \<noteq> []" by simp
  have p1: "current_page \<lparr>page_slot = Some ''chat'', settings_slot = None, messages_slot = None\<rparr> \<noteq> ''landing''"
    by (simp add: current_page_def init_session_def)
  have p2: "current_page \<lparr>page_slot = Some ''chat'', settings_slot = None, messages_slot = None\<rparr> \<noteq> ''setup''"
    by (simp add: current_page_def init_session_def)
  have tr: "trigger \<lparr>trigger = Submit ''first'', model_pick = None, temperature_pick = None,
       max_tokens_pick = None, provider = (\<lambda>r. Inl (Exn ''NotFoundError'' ''Error code: 404 - model_decommissioned''))\<rparr> = Submit ''first''" by simp
  have q: "''first'' \<noteq> []" by simp
  have sc: "sidebar_controls (init_session \<lparr>page_slot = Some ''chat'', settings_slot = None, messages_slot = None\<rparr>)
      \<lparr>trigger = Submit ''first'', model_pick = None, temperature_pick = None,
       max_tokens_pick = None, provider = (\<lambda>r. Inl (Exn ''NotFoundError'' ''Error code: 404 - model_decommissioned''))\<rparr> = Inr \<lparr>page = ''chat'', settings = default_settings, messages = []\<rparr>"
    by (simp add: sidebar_controls_def init_session_def model_index_def MODEL_OPTIONS_def
          default_settings_def selectbox_def slider_def)
  have gr: "generate_response ''gsk_demo''
      (provider \<lparr>trigger = Submit ''first'', model_pick = None, temperature_pick = None,
       max_tokens_pick = None, provider = (\<lambda>r. Inl (Exn ''NotFoundError'' ''Error code: 404 - model_decommissioned''))\<rparr>)
      \<lparr>page = ''chat'', settings = default_settings, messages = []\<rparr> ''first'' = Inl (Exn ''NotFoundError'' ''Error code: 404 - model_decommissioned'')"
    by (simp add: generate_response_def)
  have shown: "error_shown (Exn ''NotFoundError'' ''Error code: 404 - model_decommissioned'') = ErrorBox retired_hint"
    by (simp add: error_shown_def)
  have tr0: "transcript \<lparr>page_slot = Some ''chat'', settings_slot = None, messages_slot = None\<rparr> = []"
    by (simp add: transcript_def init_session_def)
  note inst = submit_failure_keeps_user_message [OF key ne p1 p2 tr q sc gr]
  show ?thesis
    using key ne sc gr inst [THEN conjunct1] inst [THEN conjunct2, THEN conjunct1]
    by (simp add: shown tr0)
qed

text \<open>
  Two failed submissions in a fresh session leave two user messages: the length of the
  transcript after a failure is even here.
\<close>

lemma failed_submit_step:
  assumes "resolve_key secret envvar = Inr (Some k)" and "k \<noteq> []"
    and "current_page st = ''chat''" and "trigger inp = Submit q" and "q \<noteq> []"
    and "provider inp = (\<lambda>r. Inl e)"
  shows "transcript (fst (interact secret envvar st inp)) =
           transcript st @ [\<lparr>role = ''user'', content = q\<rparr>]
         \<and> current_page (fst (interact secret envvar st inp)) = ''chat''"
proof -
  obtain s3 where s3: "sidebar_controls (init_session st) inp = Inr s3"
    using sidebar_controls_Inr by blast
  have pg: "page s3 = ''chat''"
    using sidebar_controls_keeps[OF s3] assms(3) by (simp add: current_page_def)
  have gr: "generate_response k (provider inp) s3 q = Inl e"
    using assms(6) by (simp add: generate_response_def)
  have p1: "current_page st \<noteq> ''landing''" and p2: "current_page st \<noteq> ''setup''"
    using assms(3) by simp_all
  show ?thesis
    using pg by (simp add: interact_submit_failure[OF assms(1,2) p1 p2 assms(4,5) s3 gr])
qed

theorem repeated_failure_even_transcript_counterexample:
  "transcript (run_all (Secrets (Some ''gsk_demo'')) None fresh_state
       [\<lparr>trigger = Click LandingChat, model_pick = None, temperature_pick = None,
       max_tokens_pick = None, provider = (\<lambda>r. Inl (Exn ''NotFoundError'' ''Error code: 404 - model_decommissioned''))\<rparr>,
        \<lparr>trigger = Submit ''first'', model_pick = None, temperature_pick = None,
       max_tokens_pick = None, provider = (\<lambda>r. Inl (Exn ''NotFoundError'' ''Error code: 404 - model_decommissioned''))\<rparr>,
        \<lparr>trigger = Submit ''again'', model_pick = None, temperature_pick = None,
       max_tokens_pick = None, provider = (\<lambda>r. Inl (Exn ''NotFoundError'' ''Error code: 404 - model_decommissioned''))\<rparr>]) =
     [\<lparr>role = ''user'', content = ''first''\<rparr>, \<lparr>role = ''user'', content = ''again''\<rparr>]
   \<and> \<not> odd (length (transcript (run_all (Secrets (Some ''gsk_demo'')) None fresh_state
       [\<lparr>trigger = Click LandingChat, model_pick = None, temperature_pick = None,
       max_tokens_pick = None, provider = (\<lambda>r. Inl (Exn ''NotFoundError'' ''Error code: 404 - model_decommissioned''))\<rparr>,
        \<lparr>trigger = Submit ''first'', model_pick = None, temperature_pick = None,
       max_tokens_pick = None, provider = (\<lambda>r. Inl (Exn ''NotFoundError'' ''Error code: 404 - model_decommissioned''))\<rparr>,
        \<lparr>trigger = Submit ''again'', model_pick = None, temperature_pick = None,
       max_tokens_pick = None, provider = (\<lambda>r. Inl (Exn ''NotFoundError'' ''Error code: 404 - model_decommissioned''))\<rparr>])))"
proof -
  have key: "resolve_key (Secrets (Some ''gsk_demo'')) None = Inr (Some ''gsk_demo'')"
    by (simp add: resolve_key_def)
  have ne: "''gsk_demo'' \<noteq> []" by simp
  let ?st1 = "fst (interact (Secrets (Some ''gsk_demo'')) None fresh_state
       \<lparr>trigger = Click LandingChat, model_pick = None, temperature_pick = None,
       max_tokens_pick = None, provider = (\<lambda>r. Inl (Exn ''NotFoundError'' ''Error code: 404 - model_decommissioned''))\<rparr>)"
  let ?st2 = "fst (interact (Secrets (Some ''gsk_demo'')) None ?st1
       \<lparr>trigger = Submit ''first'', model_pick = None, temperature_pick = None,
       max_tokens_pick = None, provider = (\<lambda>r. Inl (Exn ''NotFoundError'' ''Error code: 404 - model_decommissioned''))\<rparr>)"
  let ?st3 = "fst (interact (Secrets (Some ''gsk_demo'')) None ?st2
       \<lparr>trigger = Submit ''again'', model_pick = None, temperature_pick = None,
       max_tokens_pick = None, provider = (\<lambda>r. Inl (Exn ''NotFoundError'' ''Error code: 404 - model_decommissioned''))\<rparr>)"
  have row: "(''landing'', LandingChat, ''chat'') \<in> set spec_transitions"
    by (simp add: spec_transitions_def)
  have page0: "current_page fresh_state = ''landing''"
    by (simp add: current_page_def init_session_def fresh_state_def)
  have pg1: "current_page ?st1 = ''chat''"
    by (rule table_row_realised[OF key ne row page0]) simp
  have "transcript ?st1 = transcript fresh_state"
    by (rule interact_keeps_transcript) (simp add: navigation_action_def)
  then have tr1: "transcript ?st1 = []"
    by (simp add: transcript_def init_session_def fresh_state_def)
  have two: "transcript ?st2 = transcript ?st1 @ [\<lparr>role = ''user'', content = ''first''\<rparr>]
      \<and> current_page ?st2 = ''chat''"
    by (rule failed_submit_step[OF key ne pg1]) simp_all
  have three: "transcript ?st3 = transcript ?st2 @ [\<lparr>role = ''user'', content = ''again''\<rparr>]
      \<and> current_page ?st3 = ''chat''"
    by (rule failed_submit_step[OF key ne two[THEN conjunct2]]) simp_all
  have "transcript ?st3 =
     [\<lparr>role = ''user'', content = ''first''\<rparr>, \<lparr>role = ''user'', content = ''again''\<rparr>]"
    using two three tr1 by simp
  then show ?thesis by simp
qed

text \<open>
  Claim C2, as the script has it. \<^verbatim>\<open>generate_response\<close> returns the generated text
  when the provider answers, and lets the provider's exception pass unchanged when it
  fails: the script has no error type of its own, neither for provider failures nor for
  a retired model. The caller on the chat page catches the exception of the call, so
  that the execution runs to its end, and tells a retired model from other failures by
  the text of the exception alone: the last element it shows is the retired-model hint
  when the text contains \<^verbatim>\<open>decommissioned\<close> (the test for
  \<^verbatim>\<open>model_decommissioned\<close> adds nothing to it), and \<^verbatim>\<open>Error: \<close> followed by the
  text otherwise.
\<close>

theorem provider_failure_handled_by_caller:
  assumes "resolve_key secret envvar = Inr (Some k)" and "k \<noteq> []"
    and "current_page st \<noteq> ''landing''" and "current_page st \<noteq> ''setup''"
    and "trigger inp = Submit q" and "q \<noteq> []"
    and "sidebar_controls (init_session st) inp = Inr s3"
    and "provider inp (build_request k (settings s3) q) = Inl e"
  shows "generate_response k (provider inp) s3 q = Inl e
         \<and> snd (snd (interact secret envvar st inp)) = Completed
         \<and> last (fst (snd (interact secret envvar st inp))) =
             ErrorBox (if str_contains ''decommissioned'' (exn_str e) then retired_hint
                       else ''Error: '' @ exn_str e)
         \<and> (\<forall>remote answer. remote (build_request k (settings s3) q) = Inr answer \<longrightarrow>
                generate_response k remote s3 q = Inr answer)"
proof -
  have gr: "generate_response k (provider inp) s3 q = Inl e"
    using assms(8) by (simp add: generate_response_def)
  have ok: "\<forall>remote answer. remote (build_request k (settings s3) q) = Inr answer \<longrightarrow>
                generate_response k remote s3 q = Inr answer"
    by (simp add: generate_response_def)
  show ?thesis
    using gr ok
    by (simp add: interact_submit_failure[OF assms(1,2,3,4,5,6,7) gr] error_shown_eq)
qed

theorem provider_failure_handled_by_caller_witness:
  "resolve_key (Secrets (Some ''gsk_demo'')) None = Inr (Some ''gsk_demo'') \<and> ''gsk_demo'' \<noteq> [] \<and>
   sidebar_controls (init_session \<lparr>page_slot = Some ''chat'', settings_slot = None, messages_slot = None\<rparr>)
      \<lparr>trigger = Submit ''hi'', model_pick = None, temperature_pick = None,
       max_tokens_pick = None, provider = (\<lambda>r. Inl (Exn ''NotFoundError'' ''Error code: 404 - model_decommissioned''))\<rparr> = Inr \<lparr>page = ''chat'', settings = default_settings, messages = []\<rparr> \<and>
   provider \<lparr>trigger = Submit ''hi'', model_pick = None, temperature_pick = None,
       max_tokens_pick = None, provider = (\<lambda>r. Inl (Exn ''NotFoundError'' ''Error code: 404 - model_decommissioned''))\<rparr>
      (build_request ''gsk_demo'' (settings \<lparr>page = ''chat'', settings = default_settings, messages = []\<rparr>) ''hi'') =
     Inl (Exn ''NotFoundError'' ''Error code: 404 - model_decommissioned'') \<and>
   generate_response ''gsk_demo'' (\<lambda>r. Inl (Exn ''NotFoundError'' ''Error code: 404 - model_decommissioned''))
      \<lparr>page = ''chat'', settings = default_settings, messages = []\<rparr> ''hi'' = Inl (Exn ''NotFoundError'' ''Error code: 404 - model_decommissioned'') \<and>
   snd (snd (interact (Secrets (Some ''gsk_demo'')) None \<lparr>page_slot = Some ''chat'', settings_slot = None, messages_slot = None\<rparr>
      \<lparr>trigger = Submit ''hi'', model_pick = None, temperature_pick = None,
       max_tokens_pick = None, provider = (\<lambda>r. Inl (Exn ''NotFoundError'' ''Error code: 404 - model_decommissioned''))\<rparr>)) = Completed \<and>
   last (fst (snd (interact (Secrets (Some ''gsk_demo'')) None \<lparr>page_slot = Some ''chat'', settings_slot = None, messages_slot = None\<rparr>
      \<lparr>trigger = Submit ''hi'', model_pick = None, temperature_pick = None,
       max_tokens_pick = None, provider = (\<lambda>r. Inl (Exn ''NotFoundError'' ''Error code: 404 - model_decommissioned''))\<rparr>))) = ErrorBox retired_hint"
proof -
  have key: "resolve_key (Secrets (Some ''gsk_demo'')) None = Inr (Some ''gsk_demo'')"
    by (simp add: resolve_key_def)
  have ne: "''gsk_demo'' \<noteq> []" by simp
  have p1: "current_page \<lparr>page_slot = Some ''chat'', settings_slot = None, messages_slot = None\<rparr> \<noteq> ''landing''"
    by (simp add: current_page_def init_session_def)
  have p2: "current_page \<lparr>page_slot = Some ''chat'', settings_slot = None, messages_slot = None\<rparr> \<noteq> ''setup''"
    by (simp add: current_page_def init_session_def)
  have tr: "trigger \<lparr>trigger = Submit ''hi'', model_pick = None, temperature_pick = None,
       max_tokens_pick = None, provider = (\<lambda>r. Inl (Exn ''NotFoundError'' ''Error code: 404 - model_decommissioned''))\<rparr> = Submit ''hi''" by simp
  have q: "''hi'' \<noteq> []" by simp
  have sc: "sidebar_controls (init_session \<lparr>page_slot = Some ''chat'', settings_slot = None, messages_slot = None\<rparr>)
      \<lparr>trigger = Submit ''hi'', model_pick = None, temperature_pick = None,
       max_tokens_pick = None, provider = (\<lambda>r. Inl (Exn ''NotFoundError'' ''Error code: 404 - model_decommissioned''))\<rparr> = Inr \<lparr>page = ''chat'', settings = default_settings, messages = []\<rparr>"
    by (simp add: sidebar_controls_def init_session_def model_index_def MODEL_OPTIONS_def
          default_settings_def selectbox_def slider_def)
  have pr: "provider \<lparr>trigger = Submit ''hi'', model_pick = None, temperature_pick = None,
       max_tokens_pick = None, provider = (\<lambda>r. Inl (Exn ''NotFoundError'' ''Error code: 404 - model_decommissioned''))\<rparr>
      (build_request ''gsk_demo'' (settings \<lparr>page = ''chat'', settings = default_settings, messages = []\<rparr>) ''hi'') =
     Inl (Exn ''NotFoundError'' ''Error code: 404 - model_decommissioned'')"
    by simp
  have hit: "str_contains ''decommissioned'' (exn_str (Exn ''NotFoundError'' ''Error code: 404 - model_decommissioned''))"
    by simp
  note inst = provider_failure_handled_by_caller [OF key ne p1 p2 tr q sc pr]
  have g: "generate_response ''gsk_demo'' (\<lambda>r. Inl (Exn ''NotFoundError'' ''Error code: 404 - model_decommissioned''))
      \<lparr>page = ''chat'', settings = default_settings, messages = []\<rparr> ''hi'' = Inl (Exn ''NotFoundError'' ''Error code: 404 - model_decommissioned'')"
    using inst [THEN conjunct1] by simp
  have shown: "last (fst (snd (interact (Secrets (Some ''gsk_demo'')) None \<lparr>page_slot = Some ''chat'', settings_slot = None, messages_slot = None\<rparr>
      \<lparr>trigger = Submit ''hi'', model_pick = None, temperature_pick = None,
       max_tokens_pick = None, provider = (\<lambda>r. Inl (Exn ''NotFoundError'' ''Error code: 404 - model_decommissioned''))\<rparr>))) = ErrorBox retired_hint"
    using inst [THEN conjunct2, THEN conjunct2, THEN conjunct1] hit by simp
  show ?thesis
    using key ne sc pr g inst [THEN conjunct2, THEN conjunct1] shown by blast
qed

text \<open>
  The exception of a retired model reaches the caller with the provider's own class, and
  a failure of another kind whose text mentions the word receives the retired-model hint.
\<close>

theorem raw_provider_exception_counterexample:
  "generate_response ''gsk_demo'' (\<lambda>r. Inl (Exn ''NotFoundError'' ''Error code: 404 - model_decommissioned'')) \<lparr>page = ''chat'', settings = default_settings, messages = []\<rparr> ''hi'' =
     Inl (Exn ''NotFoundError'' ''Error code: 404 - model_decommissioned'')
   \<and> exn_class (Exn ''NotFoundError'' ''Error code: 404 - model_decommissioned'') \<noteq> ''ModelRetiredError''
   \<and> exn_class (Exn ''NotFoundError'' ''Error code: 404 - model_decommissioned'') \<noteq> ''ProviderError''
   \<and> generate_response ''gsk_demo'' (\<lambda>r. Inl (Exn ''RateLimitError'' ''Rate limit reached for the decommissioned tier'')) \<lparr>page = ''chat'', settings = default_settings, messages = []\<rparr> ''hi'' =
     Inl (Exn ''RateLimitError'' ''Rate limit reached for the decommissioned tier'')
   \<and> error_shown (Exn ''RateLimitError'' ''Rate limit reached for the decommissioned tier'') = ErrorBox retired_hint"
  by (simp add: generate_response_def error_shown_def)

end
